theory Spec2Isabelle
  imports Complex_Main
begin

section \<open>Configuration loading of \<^verbatim>\<open>src/utils/config.py\<close>\<close>

text \<open>
  The module reads twelve environment variables, coerces them with the Python builtins
  \<^verbatim>\<open>int\<close>, \<^verbatim>\<open>float\<close>, \<^verbatim>\<open>str.lower\<close> and \<^verbatim>\<open>Path\<close>, and builds four pydantic
  records and one aggregate. The four records are the \<^emph>\<open>default values\<close> of the fields of
  class \<^verbatim>\<open>Config\<close>: their expressions are evaluated when the class body runs, at module
  import; \<^verbatim>\<open>Config.load()\<close> is \<^verbatim>\<open>cls()\<close> and only instantiates those defaults.

  Strings are byte strings (\<^typ>\<open>string\<close>); the builtins are modelled on ASCII input.
\<close>

subsection \<open>Errors\<close>

datatype error =
    FloatValueError string
      \<comment> \<open>\<^verbatim>\<open>ValueError: could not convert string to float: s\<close>\<close>
  | IntValueError string
      \<comment> \<open>\<^verbatim>\<open>ValueError: invalid literal for int() with base 10: s\<close>\<close>
  | ValidationError string string
      \<comment> \<open>pydantic's \<^verbatim>\<open>ValidationError\<close>: the field, and the message of the validator\<close>

subsection \<open>The Python builtins the module calls\<close>

text \<open>\<^verbatim>\<open>os.getenv(key, default)\<close> on the environment, a dictionary of strings.\<close>

type_synonym environ = "string \<rightharpoonup> string"

definition getenv :: "environ \<Rightarrow> string \<Rightarrow> string \<Rightarrow> string" where
  "getenv env key dflt = (case env key of None \<Rightarrow> dflt | Some v \<Rightarrow> v)"

text \<open>\<^verbatim>\<open>str.lower()\<close>: the letters A to Z are moved to a to z, every other byte is kept.\<close>

definition lower_char :: "char \<Rightarrow> char" where
  "lower_char c =
     (let n = (of_char c :: nat) in if 65 \<le> n \<and> n \<le> 90 then char_of (n + 32) else c)"

definition lower :: "string \<Rightarrow> string" where
  "lower s = map lower_char s"

text \<open>
  The whitespace \<^verbatim>\<open>int\<close> and \<^verbatim>\<open>float\<close> skip at both ends of an ASCII string
  (CPython's \<^verbatim>\<open>Py_ISSPACE\<close>): space, tab, line feed, vertical tab, form feed, carriage return.
\<close>

definition is_space :: "char \<Rightarrow> bool" where
  "is_space c = (c \<in> set [CHR '' '', CHR 0x09, CHR 0x0A, CHR 0x0B, CHR 0x0C, CHR 0x0D])"

definition strip :: "string \<Rightarrow> string" where
  "strip s = rev (dropWhile is_space (rev (dropWhile is_space s)))"

definition is_digit :: "char \<Rightarrow> bool" where
  "is_digit c = (c \<in> set ''0123456789'')"

definition digit_val :: "char \<Rightarrow> int" where
  "digit_val c = int (of_char c) - 48"

definition digits_val :: "string \<Rightarrow> int" where
  "digits_val ds = foldl (\<lambda>a c. 10 * a + digit_val c) 0 ds"

text \<open>
  An underscore is allowed between two digits only: the loop of CPython that walks the
  string with the previous character (initially NUL) and rejects an underscore that does
  not follow a digit, a non-digit that follows an underscore, and an underscore at the end.
\<close>

fun underscores_ok :: "char \<Rightarrow> string \<Rightarrow> bool" where
  "underscores_ok prev [] = (prev \<noteq> CHR ''_'')"
| "underscores_ok prev (c # cs) =
     ((if c = CHR ''_'' then is_digit prev
       else if prev = CHR ''_'' then is_digit c else True)
      \<and> underscores_ok c cs)"

definition drop_underscores :: "string \<Rightarrow> string" where
  "drop_underscores s = filter (\<lambda>c. c \<noteq> CHR ''_'') s"

text \<open>An optional sign: the flag is true for \<^verbatim>\<open>-\<close>.\<close>

fun split_sign :: "string \<Rightarrow> bool \<times> string" where
  "split_sign [] = (False, [])"
| "split_sign (c # cs) =
     (if c = CHR ''-'' then (True, cs) else if c = CHR ''+'' then (False, cs)
      else (False, c # cs))"

text \<open>
  \<^verbatim>\<open>int(s)\<close> in base 10: surrounding whitespace, an optional sign, then at least one digit,
  with single underscores between digits. Anything else raises \<^verbatim>\<open>ValueError\<close>.
  (The interpreter's configurable limit on the number of digits is not modelled.)
\<close>

definition py_int :: "string \<Rightarrow> error + int" where
  "py_int s =
     (let (neg, body) = split_sign (strip s);
          ds = drop_underscores body
      in if ds \<noteq> [] \<and> underscores_ok (CHR 0x00) body \<and> list_all is_digit ds
         then Inr (if neg then - digits_val ds else digits_val ds)
         else Inl (IntValueError s))"

text \<open>
  A float is represented by the number its literal denotes, before CPython rounds that
  number to the nearest binary64 value; the rounding is a function of the number, so two
  fields that are equal here are equal floats. Infinities (with their sign) and NaN are
  values of their own.
\<close>

datatype pyfloat = Finite rat | Infinity bool | NaN

definition scale10 :: "int \<Rightarrow> int \<Rightarrow> rat" where
  "scale10 m k = (if 0 \<le> k then of_int (m * 10 ^ nat k) else of_int m / of_int (10 ^ nat (- k)))"

text \<open>The exponent part of a float literal: nothing, or \<^verbatim>\<open>e\<close>/\<^verbatim>\<open>E\<close>, an optional sign and digits.\<close>

fun exponent :: "string \<Rightarrow> int option" where
  "exponent [] = Some 0"
| "exponent (c # cs) =
     (if c = CHR ''e'' \<or> c = CHR ''E'' then
        (let (neg, ds) = split_sign cs
         in if ds \<noteq> [] \<and> list_all is_digit ds
            then Some (if neg then - digits_val ds else digits_val ds) else None)
      else None)"

text \<open>
  A decimal literal without sign and underscores: digits, an optional point and digits
  (at least one digit in all), an optional exponent, and nothing after it.
\<close>

definition decimal :: "string \<Rightarrow> rat option" where
  "decimal s =
     (let ip = takeWhile is_digit s;
          r1 = dropWhile is_digit s;
          (fp, r2) = (case r1 of
                        c # cs \<Rightarrow> if c = CHR ''.''
                                  then (takeWhile is_digit cs, dropWhile is_digit cs)
                                  else ([], r1)
                      | [] \<Rightarrow> ([], r1))
      in if ip @ fp = [] then None
         else (case exponent r2 of
                 None \<Rightarrow> None
               | Some e \<Rightarrow> Some (scale10 (digits_val (ip @ fp)) (e - int (length fp)))))"

text \<open>
  \<^verbatim>\<open>float(s)\<close>: surrounding whitespace, underscores between digits only, an optional sign,
  then \<^verbatim>\<open>inf\<close>, \<^verbatim>\<open>infinity\<close> or \<^verbatim>\<open>nan\<close> in any case, or a decimal literal. Anything else
  raises \<^verbatim>\<open>ValueError\<close>.
\<close>

definition py_float :: "string \<Rightarrow> error + pyfloat" where
  "py_float s =
     (let t = strip s;
          (neg, body) = split_sign (drop_underscores t)
      in if \<not> underscores_ok (CHR 0x00) t then Inl (FloatValueError s)
         else if lower body = ''inf'' \<or> lower body = ''infinity'' then Inr (Infinity neg)
         else if lower body = ''nan'' then Inr NaN
         else (case decimal body of
                 None \<Rightarrow> Inl (FloatValueError s)
               | Some q \<Rightarrow> Inr (Finite (if neg then - q else q))))"

text \<open>
  \<^verbatim>\<open>Path(s)\<close> never fails. A path is represented by the string it was built from: what
  pathlib makes of it is a function of that string.
\<close>

datatype path = Path string

subsection \<open>The four records and their validators\<close>

record OpenAIConfig =
  api_key :: string
  model :: string
  temperature :: pyfloat
  max_tokens :: int

record AgentConfig =
  max_iterations :: int
  max_execution_time :: int
  verbose :: bool

record MemoryConfig =
  memory_type :: string
  collection_name :: string
  persist_directory :: path

record CostConfig =
  max_cost_per_request :: pyfloat
  enable_cost_tracking :: bool

definition validate_api_key :: "string \<Rightarrow> error + string" where
  "validate_api_key v =
     (if v = [] \<or> v = ''your_openai_api_key_here''
      then Inl (ValidationError ''api_key'' ''Valid OpenAI API key required'')
      else Inr v)"

definition validate_iterations :: "int \<Rightarrow> error + int" where
  "validate_iterations v =
     (if v < 1 \<or> v > 50
      then Inl (ValidationError ''max_iterations'' ''Max iterations must be between 1 and 50'')
      else Inr v)"

text \<open>
  The constructors, called with keyword arguments of the declared types: pydantic keeps
  such arguments as they are and runs the validator of the class.
\<close>

definition new_OpenAIConfig :: "string \<Rightarrow> string \<Rightarrow> pyfloat \<Rightarrow> int \<Rightarrow> error + OpenAIConfig" where
  "new_OpenAIConfig k m t n =
     (case validate_api_key k of
        Inl e \<Rightarrow> Inl e
      | Inr k' \<Rightarrow> Inr \<lparr>api_key = k', model = m, temperature = t, max_tokens = n\<rparr>)"

definition new_AgentConfig :: "int \<Rightarrow> int \<Rightarrow> bool \<Rightarrow> error + AgentConfig" where
  "new_AgentConfig i t v =
     (case validate_iterations i of
        Inl e \<Rightarrow> Inl e
      | Inr i' \<Rightarrow> Inr \<lparr>max_iterations = i', max_execution_time = t, verbose = v\<rparr>)"

definition new_MemoryConfig :: "string \<Rightarrow> string \<Rightarrow> path \<Rightarrow> error + MemoryConfig" where
  "new_MemoryConfig t c p = Inr \<lparr>memory_type = t, collection_name = c, persist_directory = p\<rparr>"

definition new_CostConfig :: "pyfloat \<Rightarrow> bool \<Rightarrow> error + CostConfig" where
  "new_CostConfig c t = Inr \<lparr>max_cost_per_request = c, enable_cost_tracking = t\<rparr>"

subsection \<open>Class \<^verbatim>\<open>Config\<close>\<close>

text \<open>
  The default expressions of the four fields, in the order of the class body. Python
  evaluates the arguments of a call from left to right before the call, so a coercion
  error comes before the validator of the record.
\<close>

definition openai_default :: "environ \<Rightarrow> error + OpenAIConfig" where
  "openai_default env =
     (let k = getenv env ''OPENAI_API_KEY'' ''your_openai_api_key_here'';
          m = getenv env ''OPENAI_MODEL'' ''gpt-4-turbo-preview''
      in case py_float (getenv env ''OPENAI_TEMPERATURE'' ''0.0'') of
           Inl e \<Rightarrow> Inl e
         | Inr t \<Rightarrow>
             (case py_int (getenv env ''MAX_TOKENS'' ''4096'') of
                Inl e \<Rightarrow> Inl e
              | Inr n \<Rightarrow> new_OpenAIConfig k m t n))"

definition agent_default :: "environ \<Rightarrow> error + AgentConfig" where
  "agent_default env =
     (case py_int (getenv env ''AGENT_MAX_ITERATIONS'' ''10'') of
        Inl e \<Rightarrow> Inl e
      | Inr i \<Rightarrow>
          (case py_int (getenv env ''AGENT_MAX_EXECUTION_TIME'' ''300'') of
             Inl e \<Rightarrow> Inl e
           | Inr t \<Rightarrow>
               new_AgentConfig i t (lower (getenv env ''AGENT_VERBOSE'' ''true'') = ''true'')))"

definition memory_default :: "environ \<Rightarrow> error + MemoryConfig" where
  "memory_default env =
     new_MemoryConfig (getenv env ''MEMORY_TYPE'' ''chromadb'')
       (getenv env ''MEMORY_COLLECTION_NAME'' ''agent_memory'')
       (Path (getenv env ''MEMORY_PERSIST_DIRECTORY'' ''./data/memory''))"

definition cost_default :: "environ \<Rightarrow> error + CostConfig" where
  "cost_default env =
     (case py_float (getenv env ''MAX_COST_PER_REQUEST'' ''1.00'') of
        Inl e \<Rightarrow> Inl e
      | Inr c \<Rightarrow>
          new_CostConfig c (lower (getenv env ''ENABLE_COST_TRACKING'' ''true'') = ''true''))"

text \<open>An instance of \<^verbatim>\<open>Config\<close>, and the class object with the defaults of its fields.\<close>

record Config =
  openai :: OpenAIConfig
  agent :: AgentConfig
  memory :: MemoryConfig
  cost :: CostConfig

record Config_class =
  openai_dflt :: OpenAIConfig
  agent_dflt :: AgentConfig
  memory_dflt :: MemoryConfig
  cost_dflt :: CostConfig

text \<open>The class body (lines 48 to 69): the first default that raises aborts the definition.\<close>

definition define_Config :: "environ \<Rightarrow> error + Config_class" where
  "define_Config env =
     (case openai_default env of
        Inl e \<Rightarrow> Inl e
      | Inr oc \<Rightarrow>
          (case agent_default env of
             Inl e \<Rightarrow> Inl e
           | Inr ac \<Rightarrow>
               (case memory_default env of
                  Inl e \<Rightarrow> Inl e
                | Inr mc \<Rightarrow>
                    (case cost_default env of
                       Inl e \<Rightarrow> Inl e
                     | Inr cc \<Rightarrow>
                         Inr \<lparr>openai_dflt = oc, agent_dflt = ac,
                              memory_dflt = mc, cost_dflt = cc\<rparr>))))"

text \<open>\<^verbatim>\<open>Config.load()\<close> is \<^verbatim>\<open>cls()\<close>: every field takes (a copy of) its default.\<close>

definition Config_load :: "Config_class \<Rightarrow> Config" where
  "Config_load cls =
     \<lparr>openai = openai_dflt cls, agent = agent_dflt cls,
      memory = memory_dflt cls, cost = cost_dflt cls\<rparr>"

subsection \<open>The process\<close>

text \<open>
  The state of a process that has imported the module: its environment, the class
  \<^verbatim>\<open>Config\<close> and the module's global \<^verbatim>\<open>config\<close>.
\<close>

record process =
  environ :: environ
  Config_cls :: Config_class
  config :: Config

text \<open>
  Lines 12 to 77 under the environment \<open>env\<close>, the one that the call of line 10 has
  left: the class definitions, then \<^verbatim>\<open>config = Config.load()\<close>. An error aborts the
  import and leaves no process state.
\<close>

definition import_module :: "environ \<Rightarrow> error + process" where
  "import_module env =
     (case define_Config env of
        Inl e \<Rightarrow> Inl e
      | Inr cls \<Rightarrow> Inr \<lparr>environ = env, Config_cls = cls, config = Config_load cls\<rparr>)"

text \<open>
  What happens in the process afterwards: the host sets or deletes an environment
  variable, or calls \<^verbatim>\<open>Config.load()\<close>, which returns an aggregate.
\<close>

datatype event = Setenv string string | Unsetenv string | Load

fun step :: "event \<Rightarrow> process \<Rightarrow> process \<times> Config option" where
  "step (Setenv k v) p = (p\<lparr>environ := (environ p)(k \<mapsto> v)\<rparr>, None)"
| "step (Unsetenv k) p = (p\<lparr>environ := (environ p)(k := None)\<rparr>, None)"
| "step Load p = (p, Some (Config_load (Config_cls p)))"

text \<open>A run of events, with the aggregates the calls of the loader returned, in order.\<close>

fun run :: "event list \<Rightarrow> process \<Rightarrow> process \<times> Config list" where
  "run [] p = (p, [])"
| "run (ev # evs) p =
     (case step ev p of
        (p', r) \<Rightarrow>
          (case run evs p' of
             (p'', rs) \<Rightarrow> (p'', (case r of None \<Rightarrow> rs | Some c \<Rightarrow> c # rs))))"

subsection \<open>Notions of the specification\<close>

text \<open>
  The valid snapshots as the specification describes them: the credential key is present
  and is not the placeholder, and the iteration count lies in the range 1 to 50.
\<close>

definition claimed_valid :: "environ \<Rightarrow> bool" where
  "claimed_valid env =
     ((case env ''OPENAI_API_KEY'' of
         None \<Rightarrow> False
       | Some k \<Rightarrow> k \<noteq> ''your_openai_api_key_here'')
      \<and> (case py_int (getenv env ''AGENT_MAX_ITERATIONS'' ''10'') of
            Inl e \<Rightarrow> False
          | Inr i \<Rightarrow> 1 \<le> i \<and> i \<le> 50))"

text \<open>The case variants of \<^verbatim>\<open>true\<close>, letter by letter.\<close>

definition case_variant_of_true :: "string \<Rightarrow> bool" where
  "case_variant_of_true s =
     (case s of
        [a, b, c, d] \<Rightarrow>
          a \<in> set ''tT'' \<and> b \<in> set ''rR'' \<and> c \<in> set ''uU'' \<and> d \<in> set ''eE''
      | _ \<Rightarrow> False)"

text \<open>
  Modelled from the spec: \<^verbatim>\<open>load_dotenv\<close> comes from the package python-dotenv and is
  not part of the sources; line 10 calls it without arguments. The specification says
  that it merges the variables of an optional local environment-definition file into the
  process environment and does not override a variable that is already set. The file,
  when there is one, is given by the variables it defines.
\<close>

definition load_dotenv :: "(string \<rightharpoonup> string) option \<Rightarrow> environ \<Rightarrow> environ" where
  "load_dotenv file env =
     (case file of
        None \<Rightarrow> env
      | Some vars \<Rightarrow> (\<lambda>k. case env k of Some v \<Rightarrow> Some v | None \<Rightarrow> vars k))"

subsection \<open>Example environments\<close>

definition env_key_only :: environ where
  "env_key_only = [''OPENAI_API_KEY'' \<mapsto> ''sk-test'']"

definition env_custom :: environ where
  "env_custom =
     [''OPENAI_API_KEY'' \<mapsto> ''sk-test'', ''OPENAI_TEMPERATURE'' \<mapsto> ''0.7'',
      ''AGENT_MAX_ITERATIONS'' \<mapsto> ''25'', ''AGENT_VERBOSE'' \<mapsto> ''False'']"

definition env_bad_tokens :: environ where
  "env_bad_tokens = [''OPENAI_API_KEY'' \<mapsto> ''sk-test'', ''MAX_TOKENS'' \<mapsto> ''abc'']"

definition env_empty_key :: environ where
  "env_empty_key = [''OPENAI_API_KEY'' \<mapsto> '''']"

definition env_no_key_bad_temperature :: environ where
  "env_no_key_bad_temperature = [''OPENAI_TEMPERATURE'' \<mapsto> ''abc'']"

definition env_TEMPERATURE :: environ where
  "env_TEMPERATURE = [''OPENAI_API_KEY'' \<mapsto> ''sk-test'', ''TEMPERATURE'' \<mapsto> ''abc'']"

definition env_all_bad :: environ where
  "env_all_bad =
     [''OPENAI_API_KEY'' \<mapsto> ''sk-test'', ''MAX_TOKENS'' \<mapsto> ''abc'',
      ''OPENAI_TEMPERATURE'' \<mapsto> ''abc'', ''AGENT_MAX_EXECUTION_TIME'' \<mapsto> ''abc'',
      ''MAX_COST_PER_REQUEST'' \<mapsto> ''abc'']"

definition env_flags :: environ where
  "env_flags =
     [''OPENAI_API_KEY'' \<mapsto> ''sk-test'', ''AGENT_VERBOSE'' \<mapsto> ''TrUe'',
      ''ENABLE_COST_TRACKING'' \<mapsto> ''FALSE'']"

definition dotenv_example :: "string \<rightharpoonup> string" where
  "dotenv_example = [''OPENAI_API_KEY'' \<mapsto> ''sk-file'', ''OPENAI_MODEL'' \<mapsto> ''gpt-4'']"

definition env_51_iterations :: environ where
  "env_51_iterations = [''OPENAI_API_KEY'' \<mapsto> ''sk-test'', ''AGENT_MAX_ITERATIONS'' \<mapsto> ''51'']"

section \<open>Properties\<close>

subsection \<open>The builtins on the literals of the module\<close>

lemmas builtin_defs =
  py_int_def py_float_def strip_def is_space_def is_digit_def drop_underscores_def
  digits_val_def digit_val_def decimal_def scale10_def lower_def lower_char_def

lemma py_int_4096: "py_int ''4096'' = Inr 4096"
  by (simp add: builtin_defs)

lemma py_int_10: "py_int ''10'' = Inr 10"
  by (simp add: builtin_defs)

lemma py_int_300: "py_int ''300'' = Inr 300"
  by (simp add: builtin_defs)

lemma py_float_0: "py_float ''0.0'' = Inr (Finite 0)"
  by (simp add: builtin_defs)

lemma py_float_1: "py_float ''1.00'' = Inr (Finite 1)"
  by (simp add: builtin_defs)

lemma lower_true: "lower ''true'' = ''true''"
  by (simp add: builtin_defs)

lemma py_int_abc: "py_int ''abc'' = Inl (IntValueError ''abc'')"
  by (simp add: builtin_defs)

lemma py_float_abc: "py_float ''abc'' = Inl (FloatValueError ''abc'')"
  by (simp add: builtin_defs)

subsection \<open>Case-insensitive comparison\<close>

lemma lower_char_eq_iff:
  assumes "97 \<le> (of_char d :: nat)" and "(of_char d :: nat) \<le> 122"
  shows "lower_char c = d \<longleftrightarrow> c = d \<or> (of_char c :: nat) + 32 = of_char d"
proof (cases "65 \<le> (of_char c :: nat) \<and> (of_char c :: nat) \<le> 90")
  case True
  then have l: "lower_char c = char_of ((of_char c :: nat) + 32)"
    by (simp add: lower_char_def)
  have ne: "c \<noteq> d" using True assms by auto
  have "char_of ((of_char c :: nat) + 32) = d \<longleftrightarrow> (of_char c :: nat) + 32 = of_char d"
    using True by (simp add: char_of_eq_iff take_bit_eq_mod)
  then show ?thesis using l ne by simp
next
  case False
  then have l: "lower_char c = c"
    by (auto simp add: lower_char_def)
  have "(of_char c :: nat) + 32 \<noteq> of_char d"
    using False assms by auto
  then show ?thesis using l by simp
qed

lemma of_char_eq_nat: "(of_char c :: nat) = of_char d \<longleftrightarrow> c = d"
  by simp

lemma lower_char_t: "lower_char c = CHR ''t'' \<longleftrightarrow> c = CHR ''t'' \<or> c = CHR ''T''"
  using lower_char_eq_iff [of "CHR ''t''" c] of_char_eq_nat [of c "CHR ''T''"] by auto

lemma lower_char_r: "lower_char c = CHR ''r'' \<longleftrightarrow> c = CHR ''r'' \<or> c = CHR ''R''"
  using lower_char_eq_iff [of "CHR ''r''" c] of_char_eq_nat [of c "CHR ''R''"] by auto

lemma lower_char_u: "lower_char c = CHR ''u'' \<longleftrightarrow> c = CHR ''u'' \<or> c = CHR ''U''"
  using lower_char_eq_iff [of "CHR ''u''" c] of_char_eq_nat [of c "CHR ''U''"] by auto

lemma lower_char_e: "lower_char c = CHR ''e'' \<longleftrightarrow> c = CHR ''e'' \<or> c = CHR ''E''"
  using lower_char_eq_iff [of "CHR ''e''" c] of_char_eq_nat [of c "CHR ''E''"] by auto

lemma lower_eq_true: "lower s = ''true'' \<longleftrightarrow> case_variant_of_true s"
proof (cases s)
  case Nil
  then show ?thesis by (simp add: lower_def case_variant_of_true_def)
next
  case (Cons a s1)
  show ?thesis
  proof (cases s1)
    case Nil
    with Cons show ?thesis by (simp add: lower_def case_variant_of_true_def)
  next
    case (Cons b s2)
    note s1 = this
    show ?thesis
    proof (cases s2)
      case Nil
      with s1 \<open>s = a # s1\<close> show ?thesis by (simp add: lower_def case_variant_of_true_def)
    next
      case (Cons c s3)
      note s2 = this
      show ?thesis
      proof (cases s3)
        case Nil
        with s1 s2 \<open>s = a # s1\<close> show ?thesis by (simp add: lower_def case_variant_of_true_def)
      next
        case (Cons d s4)
        with s1 s2 \<open>s = a # s1\<close> show ?thesis
          by (cases s4)
            (auto simp add: lower_def case_variant_of_true_def
              lower_char_t lower_char_r lower_char_u lower_char_e)
      qed
    qed
  qed
qed

subsection \<open>What a successful construction tells\<close>

lemma openai_default_Inr:
  assumes "openai_default env = Inr oc"
  shows "env ''OPENAI_API_KEY'' = Some (api_key oc)"
    and "api_key oc \<noteq> []"
    and "api_key oc \<noteq> ''your_openai_api_key_here''"
    and "model oc = getenv env ''OPENAI_MODEL'' ''gpt-4-turbo-preview''"
    and "py_float (getenv env ''OPENAI_TEMPERATURE'' ''0.0'') = Inr (temperature oc)"
    and "py_int (getenv env ''MAX_TOKENS'' ''4096'') = Inr (max_tokens oc)"
proof -
  obtain t where t: "py_float (getenv env ''OPENAI_TEMPERATURE'' ''0.0'') = Inr t"
    using assms by (cases "py_float (getenv env ''OPENAI_TEMPERATURE'' ''0.0'')")
      (simp_all add: openai_default_def)
  obtain n where n: "py_int (getenv env ''MAX_TOKENS'' ''4096'') = Inr n"
    using assms t by (cases "py_int (getenv env ''MAX_TOKENS'' ''4096'')")
      (simp_all add: openai_default_def)
  define k where "k = getenv env ''OPENAI_API_KEY'' ''your_openai_api_key_here''"
  have new: "new_OpenAIConfig k (getenv env ''OPENAI_MODEL'' ''gpt-4-turbo-preview'') t n = Inr oc"
    using assms t n by (simp add: openai_default_def k_def)
  then have ok: "k \<noteq> []" "k \<noteq> ''your_openai_api_key_here''"
    by (auto simp: new_OpenAIConfig_def validate_api_key_def split: if_splits)
  with new have oc: "oc = \<lparr>api_key = k, model = getenv env ''OPENAI_MODEL'' ''gpt-4-turbo-preview'',
      temperature = t, max_tokens = n\<rparr>"
    by (simp add: new_OpenAIConfig_def validate_api_key_def)
  have "env ''OPENAI_API_KEY'' = Some k"
    using ok(2) by (cases "env ''OPENAI_API_KEY''") (simp_all add: k_def getenv_def)
  then show "env ''OPENAI_API_KEY'' = Some (api_key oc)" by (simp add: oc)
  show "api_key oc \<noteq> []" "api_key oc \<noteq> ''your_openai_api_key_here''"
    using ok by (simp_all add: oc)
  show "model oc = getenv env ''OPENAI_MODEL'' ''gpt-4-turbo-preview''" by (simp add: oc)
  show "py_float (getenv env ''OPENAI_TEMPERATURE'' ''0.0'') = Inr (temperature oc)"
    by (simp add: oc t)
  show "py_int (getenv env ''MAX_TOKENS'' ''4096'') = Inr (max_tokens oc)"
    by (simp add: oc n)
qed

lemma agent_default_Inr:
  assumes "agent_default env = Inr ac"
  shows "py_int (getenv env ''AGENT_MAX_ITERATIONS'' ''10'') = Inr (max_iterations ac)"
    and "1 \<le> max_iterations ac"
    and "max_iterations ac \<le> 50"
    and "py_int (getenv env ''AGENT_MAX_EXECUTION_TIME'' ''300'') = Inr (max_execution_time ac)"
    and "verbose ac = (lower (getenv env ''AGENT_VERBOSE'' ''true'') = ''true'')"
proof -
  obtain i where i: "py_int (getenv env ''AGENT_MAX_ITERATIONS'' ''10'') = Inr i"
    using assms by (cases "py_int (getenv env ''AGENT_MAX_ITERATIONS'' ''10'')")
      (simp_all add: agent_default_def)
  obtain t where t: "py_int (getenv env ''AGENT_MAX_EXECUTION_TIME'' ''300'') = Inr t"
    using assms i by (cases "py_int (getenv env ''AGENT_MAX_EXECUTION_TIME'' ''300'')")
      (simp_all add: agent_default_def)
  have new: "new_AgentConfig i t (lower (getenv env ''AGENT_VERBOSE'' ''true'') = ''true'') = Inr ac"
    using assms i t by (simp add: agent_default_def)
  then have ok: "1 \<le> i" "i \<le> 50"
    by (auto simp: new_AgentConfig_def validate_iterations_def split: if_splits)
  with new have ac: "ac = \<lparr>max_iterations = i, max_execution_time = t,
      verbose = (lower (getenv env ''AGENT_VERBOSE'' ''true'') = ''true'')\<rparr>"
    by (simp add: new_AgentConfig_def validate_iterations_def)
  show "py_int (getenv env ''AGENT_MAX_ITERATIONS'' ''10'') = Inr (max_iterations ac)"
    by (simp add: ac i)
  show "1 \<le> max_iterations ac" "max_iterations ac \<le> 50"
    using ok by (simp_all add: ac)
  show "py_int (getenv env ''AGENT_MAX_EXECUTION_TIME'' ''300'') = Inr (max_execution_time ac)"
    by (simp add: ac t)
  show "verbose ac = (lower (getenv env ''AGENT_VERBOSE'' ''true'') = ''true'')"
    by (simp add: ac)
qed

lemma memory_default_Inr:
  assumes "memory_default env = Inr mc"
  shows "memory_type mc = getenv env ''MEMORY_TYPE'' ''chromadb''"
    and "collection_name mc = getenv env ''MEMORY_COLLECTION_NAME'' ''agent_memory''"
    and "persist_directory mc = Path (getenv env ''MEMORY_PERSIST_DIRECTORY'' ''./data/memory'')"
  using assms by (auto simp: memory_default_def new_MemoryConfig_def)

lemma cost_default_Inr:
  assumes "cost_default env = Inr cc"
  shows "py_float (getenv env ''MAX_COST_PER_REQUEST'' ''1.00'') = Inr (max_cost_per_request cc)"
    and "enable_cost_tracking cc = (lower (getenv env ''ENABLE_COST_TRACKING'' ''true'') = ''true'')"
proof -
  obtain c where c: "py_float (getenv env ''MAX_COST_PER_REQUEST'' ''1.00'') = Inr c"
    using assms by (cases "py_float (getenv env ''MAX_COST_PER_REQUEST'' ''1.00'')")
      (simp_all add: cost_default_def)
  have cc: "cc = \<lparr>max_cost_per_request = c,
      enable_cost_tracking = (lower (getenv env ''ENABLE_COST_TRACKING'' ''true'') = ''true'')\<rparr>"
    using assms c by (simp add: cost_default_def new_CostConfig_def)
  show "py_float (getenv env ''MAX_COST_PER_REQUEST'' ''1.00'') = Inr (max_cost_per_request cc)"
    by (simp add: cc c)
  show "enable_cost_tracking cc = (lower (getenv env ''ENABLE_COST_TRACKING'' ''true'') = ''true'')"
    by (simp add: cc)
qed

lemma define_Config_Inr:
  assumes "define_Config env = Inr cls"
  shows "openai_default env = Inr (openai_dflt cls)"
    and "agent_default env = Inr (agent_dflt cls)"
    and "memory_default env = Inr (memory_dflt cls)"
    and "cost_default env = Inr (cost_dflt cls)"
  using assms unfolding define_Config_def
  by (simp_all split: sum.splits) (auto)

lemma import_module_Inr:
  assumes "import_module env = Inr p"
  shows "environ p = env"
    and "config p = Config_load (Config_cls p)"
    and "define_Config env = Inr (Config_cls p)"
  using assms unfolding import_module_def
  by (auto split: sum.splits)

lemma config_of_import:
  assumes "import_module env = Inr p"
  shows "openai_default env = Inr (openai (config p))"
    and "agent_default env = Inr (agent (config p))"
    and "memory_default env = Inr (memory (config p))"
    and "cost_default env = Inr (cost (config p))"
  using import_module_Inr [OF assms] define_Config_Inr [of env "Config_cls p"]
  by (simp_all add: Config_load_def)

subsection \<open>Evaluating the construction\<close>

lemmas config_defs =
  import_module_def define_Config_def openai_default_def agent_default_def
  memory_default_def cost_default_def new_OpenAIConfig_def new_AgentConfig_def
  new_MemoryConfig_def new_CostConfig_def validate_api_key_def validate_iterations_def
  Config_load_def

lemma import_module_succeeds:
  assumes "env ''OPENAI_API_KEY'' = Some k" and "k \<noteq> []" and "k \<noteq> ''your_openai_api_key_here''"
    and "py_float (getenv env ''OPENAI_TEMPERATURE'' ''0.0'') = Inr t"
    and "py_int (getenv env ''MAX_TOKENS'' ''4096'') = Inr n"
    and "py_int (getenv env ''AGENT_MAX_ITERATIONS'' ''10'') = Inr i"
    and "1 \<le> i" and "i \<le> 50"
    and "py_int (getenv env ''AGENT_MAX_EXECUTION_TIME'' ''300'') = Inr et"
    and "py_float (getenv env ''MAX_COST_PER_REQUEST'' ''1.00'') = Inr c"
  shows "import_module env =
    Inr \<lparr>environ = env,
         Config_cls =
           \<lparr>openai_dflt = \<lparr>api_key = k, model = getenv env ''OPENAI_MODEL'' ''gpt-4-turbo-preview'',
                           temperature = t, max_tokens = n\<rparr>,
            agent_dflt = \<lparr>max_iterations = i, max_execution_time = et,
                          verbose = (lower (getenv env ''AGENT_VERBOSE'' ''true'') = ''true'')\<rparr>,
            memory_dflt = \<lparr>memory_type = getenv env ''MEMORY_TYPE'' ''chromadb'',
                           collection_name = getenv env ''MEMORY_COLLECTION_NAME'' ''agent_memory'',
                           persist_directory =
                             Path (getenv env ''MEMORY_PERSIST_DIRECTORY'' ''./data/memory'')\<rparr>,
            cost_dflt = \<lparr>max_cost_per_request = c,
                         enable_cost_tracking =
                           (lower (getenv env ''ENABLE_COST_TRACKING'' ''true'') = ''true'')\<rparr>\<rparr>,
         config =
           \<lparr>openai = \<lparr>api_key = k, model = getenv env ''OPENAI_MODEL'' ''gpt-4-turbo-preview'',
                      temperature = t, max_tokens = n\<rparr>,
            agent = \<lparr>max_iterations = i, max_execution_time = et,
                     verbose = (lower (getenv env ''AGENT_VERBOSE'' ''true'') = ''true'')\<rparr>,
            memory = \<lparr>memory_type = getenv env ''MEMORY_TYPE'' ''chromadb'',
                      collection_name = getenv env ''MEMORY_COLLECTION_NAME'' ''agent_memory'',
                      persist_directory =
                        Path (getenv env ''MEMORY_PERSIST_DIRECTORY'' ''./data/memory'')\<rparr>,
            cost = \<lparr>max_cost_per_request = c,
                    enable_cost_tracking =
                      (lower (getenv env ''ENABLE_COST_TRACKING'' ''true'') = ''true'')\<rparr>\<rparr>\<rparr>"
proof -
  have k: "getenv env ''OPENAI_API_KEY'' ''your_openai_api_key_here'' = k"
    using assms(1) by (simp add: getenv_def)
  show ?thesis
    using assms(2-) by (simp add: config_defs k)
qed

lemma import_module_openai_error:
  assumes "openai_default env = Inl e"
  shows "import_module env = Inl e"
  using assms by (simp add: import_module_def define_Config_def)

lemma py_float_07: "py_float ''0.7'' = Inr (Finite (7 / 10))"
  by (simp add: builtin_defs)

lemma py_int_25: "py_int ''25'' = Inr 25"
  by (simp add: builtin_defs)

lemma py_int_51: "py_int ''51'' = Inr 51"
  by (simp add: builtin_defs)

lemma lower_False: "lower ''False'' \<noteq> ''true''"
  by (simp add: lower_eq_true case_variant_of_true_def)

lemma getenv_unset: "env k = None \<Longrightarrow> getenv env k d = d"
  by (simp add: getenv_def)

lemma getenv_set: "env k = Some v \<Longrightarrow> getenv env k d = v"
  by (simp add: getenv_def)

lemma import_key_only:
  "import_module env_key_only =
    Inr \<lparr>environ = env_key_only,
         Config_cls =
           \<lparr>openai_dflt = \<lparr>api_key = ''sk-test'', model = ''gpt-4-turbo-preview'',
                           temperature = Finite 0, max_tokens = 4096\<rparr>,
            agent_dflt = \<lparr>max_iterations = 10, max_execution_time = 300, verbose = True\<rparr>,
            memory_dflt = \<lparr>memory_type = ''chromadb'', collection_name = ''agent_memory'',
                           persist_directory = Path ''./data/memory''\<rparr>,
            cost_dflt = \<lparr>max_cost_per_request = Finite 1, enable_cost_tracking = True\<rparr>\<rparr>,
         config =
           \<lparr>openai = \<lparr>api_key = ''sk-test'', model = ''gpt-4-turbo-preview'',
                      temperature = Finite 0, max_tokens = 4096\<rparr>,
            agent = \<lparr>max_iterations = 10, max_execution_time = 300, verbose = True\<rparr>,
            memory = \<lparr>memory_type = ''chromadb'', collection_name = ''agent_memory'',
                      persist_directory = Path ''./data/memory''\<rparr>,
            cost = \<lparr>max_cost_per_request = Finite 1, enable_cost_tracking = True\<rparr>\<rparr>\<rparr>"
proof -
  have k: "env_key_only ''OPENAI_API_KEY'' = Some ''sk-test''"
    by (simp add: env_key_only_def)
  have g: "getenv env_key_only ''OPENAI_TEMPERATURE'' ''0.0'' = ''0.0''"
    "getenv env_key_only ''MAX_TOKENS'' ''4096'' = ''4096''"
    "getenv env_key_only ''AGENT_MAX_ITERATIONS'' ''10'' = ''10''"
    "getenv env_key_only ''AGENT_MAX_EXECUTION_TIME'' ''300'' = ''300''"
    "getenv env_key_only ''MAX_COST_PER_REQUEST'' ''1.00'' = ''1.00''"
    "getenv env_key_only ''OPENAI_MODEL'' ''gpt-4-turbo-preview'' = ''gpt-4-turbo-preview''"
    "getenv env_key_only ''AGENT_VERBOSE'' ''true'' = ''true''"
    "getenv env_key_only ''MEMORY_TYPE'' ''chromadb'' = ''chromadb''"
    "getenv env_key_only ''MEMORY_COLLECTION_NAME'' ''agent_memory'' = ''agent_memory''"
    "getenv env_key_only ''MEMORY_PERSIST_DIRECTORY'' ''./data/memory'' = ''./data/memory''"
    "getenv env_key_only ''ENABLE_COST_TRACKING'' ''true'' = ''true''"
    by (simp_all add: env_key_only_def getenv_def)
  show ?thesis
    using import_module_succeeds [of env_key_only "''sk-test''" "Finite 0" 4096 10 300 "Finite 1"] k
    by (simp add: g py_float_0 py_int_4096 py_int_10 py_int_300 py_float_1 lower_true)
qed

subsection \<open>Which variables decide whether the construction fails\<close>

lemma isl_import_module:
  "isl (import_module env)
     = (isl (openai_default env) \<or> isl (agent_default env) \<or> isl (cost_default env))"
  by (simp add: import_module_def define_Config_def memory_default_def new_MemoryConfig_def
      split: sum.splits)

lemma isl_agent_default:
  "isl (agent_default env)
     = (case py_int (getenv env ''AGENT_MAX_ITERATIONS'' ''10'') of
          Inl e \<Rightarrow> True
        | Inr i \<Rightarrow>
            (case py_int (getenv env ''AGENT_MAX_EXECUTION_TIME'' ''300'') of
               Inl e \<Rightarrow> True
             | Inr t \<Rightarrow> i < 1 \<or> 50 < i))"
  by (simp add: agent_default_def new_AgentConfig_def validate_iterations_def
      split: sum.splits)

lemma isl_cost_default:
  "isl (cost_default env) = isl (py_float (getenv env ''MAX_COST_PER_REQUEST'' ''1.00''))"
  by (simp add: cost_default_def new_CostConfig_def split: sum.splits)

lemma getenv_other: "k \<noteq> k' \<Longrightarrow> getenv (env(k' \<mapsto> v)) k d = getenv env k d"
  by (simp add: getenv_def)

lemma isl_import_verbose:
  "isl (import_module (env(''AGENT_VERBOSE'' \<mapsto> s))) = isl (import_module env)"
proof -
  have "openai_default (env(''AGENT_VERBOSE'' \<mapsto> s)) = openai_default env"
    by (simp add: openai_default_def getenv_other cong: sum.case_cong)
  moreover have "isl (agent_default (env(''AGENT_VERBOSE'' \<mapsto> s))) = isl (agent_default env)"
    by (simp add: isl_agent_default getenv_other cong: sum.case_cong)
  moreover have "cost_default (env(''AGENT_VERBOSE'' \<mapsto> s)) = cost_default env"
    by (simp add: cost_default_def getenv_other cong: sum.case_cong)
  ultimately show ?thesis by (simp add: isl_import_module)
qed

lemma isl_import_tracking:
  "isl (import_module (env(''ENABLE_COST_TRACKING'' \<mapsto> s))) = isl (import_module env)"
proof -
  have "openai_default (env(''ENABLE_COST_TRACKING'' \<mapsto> s)) = openai_default env"
    by (simp add: openai_default_def getenv_other cong: sum.case_cong)
  moreover have "agent_default (env(''ENABLE_COST_TRACKING'' \<mapsto> s)) = agent_default env"
    by (simp add: agent_default_def getenv_other cong: sum.case_cong)
  moreover have "isl (cost_default (env(''ENABLE_COST_TRACKING'' \<mapsto> s)))
      = isl (cost_default env)"
    by (simp add: isl_cost_default getenv_other)
  ultimately show ?thesis by (simp add: isl_import_module)
qed

subsection \<open>Runs of the process\<close>

lemma step_keeps_config:
  "Config_cls (fst (step ev p)) = Config_cls p \<and> config (fst (step ev p)) = config p"
  by (cases ev) simp_all

lemma run_keeps_config:
  "Config_cls (fst (run evs p)) = Config_cls p \<and> config (fst (run evs p)) = config p"
proof (induction evs arbitrary: p)
  case Nil
  show ?case by simp
next
  case (Cons ev evs)
  obtain p' r where s: "step ev p = (p', r)" by (cases "step ev p")
  obtain p'' rs where r: "run evs p' = (p'', rs)" by (cases "run evs p'")
  have "Config_cls p' = Config_cls p \<and> config p' = config p"
    using step_keeps_config [of ev p] s by simp
  moreover have "Config_cls p'' = Config_cls p' \<and> config p'' = config p'"
    using Cons.IH [of p'] r by simp
  ultimately show ?case by (simp add: s r)
qed

lemma run_returns:
  "snd (run evs p)
     = replicate (length (filter (\<lambda>ev. ev = Load) evs)) (Config_load (Config_cls p))"
proof (induction evs arbitrary: p)
  case Nil
  show ?case by simp
next
  case (Cons ev evs)
  obtain p' r where s: "step ev p = (p', r)" by (cases "step ev p")
  obtain p'' rs where r: "run evs p' = (p'', rs)" by (cases "run evs p'")
  have c: "Config_cls p' = Config_cls p"
    using step_keeps_config [of ev p] s by simp
  have rs: "rs = replicate (length (filter (\<lambda>ev. ev = Load) evs)) (Config_load (Config_cls p))"
    using Cons.IH [of p'] r c by simp
  show ?case
  proof (cases ev)
    case Load
    with s rs r show ?thesis by auto
  next
    case (Setenv k v)
    with s rs r show ?thesis by auto
  next
    case (Unsetenv k)
    with s rs r show ?thesis by auto
  qed
qed

section \<open>The claims\<close>

subsection \<open>C1: loading a valid snapshot\<close>

text \<open>
  The validity the specification names (key present and not the placeholder, iteration
  count in range) does not make the load succeed: with \<^verbatim>\<open>MAX_TOKENS=abc\<close> the call of
  \<^verbatim>\<open>int\<close> raises, and with the key set to the empty string the validator of the key raises.
\<close>

theorem claimed_valid_not_sufficient:
  "claimed_valid env_bad_tokens
   \<and> import_module env_bad_tokens = Inl (IntValueError ''abc'')
   \<and> claimed_valid env_empty_key
   \<and> import_module env_empty_key
       = Inl (ValidationError ''api_key'' ''Valid OpenAI API key required'')"
proof -
  have a: "claimed_valid env_bad_tokens"
    by (simp add: claimed_valid_def env_bad_tokens_def getenv_def py_int_10)
  have "openai_default env_bad_tokens = Inl (IntValueError ''abc'')"
    by (simp add: openai_default_def env_bad_tokens_def getenv_def py_float_0 py_int_abc)
  then have b: "import_module env_bad_tokens = Inl (IntValueError ''abc'')"
    by (rule import_module_openai_error)
  have c: "claimed_valid env_empty_key"
    by (simp add: claimed_valid_def env_empty_key_def getenv_def py_int_10)
  have "openai_default env_empty_key
      = Inl (ValidationError ''api_key'' ''Valid OpenAI API key required'')"
    by (simp add: openai_default_def env_empty_key_def getenv_def py_float_0 py_int_4096
        new_OpenAIConfig_def validate_api_key_def)
  then have d: "import_module env_empty_key
      = Inl (ValidationError ''api_key'' ''Valid OpenAI API key required'')"
    by (rule import_module_openai_error)
  from a b c d show ?thesis by simp
qed

text \<open>
  C1, amended. If the credential key is set, is not empty and is not the placeholder, the
  four integer and float variables coerce (as set, or from their default literal), and the
  iteration count lies between 1 and 50, then the import succeeds and \<^verbatim>\<open>Config.load()\<close>
  returns the aggregate, also bound to the global \<^verbatim>\<open>config\<close>, in which every field is
  the coerced value of its variable, or of the default literal when the variable is unset.
\<close>

theorem load_valid_snapshot:
  assumes "env ''OPENAI_API_KEY'' = Some k" and "k \<noteq> []" and "k \<noteq> ''your_openai_api_key_here''"
    and "py_float (getenv env ''OPENAI_TEMPERATURE'' ''0.0'') = Inr t"
    and "py_int (getenv env ''MAX_TOKENS'' ''4096'') = Inr n"
    and "py_int (getenv env ''AGENT_MAX_ITERATIONS'' ''10'') = Inr i"
    and "1 \<le> i" and "i \<le> 50"
    and "py_int (getenv env ''AGENT_MAX_EXECUTION_TIME'' ''300'') = Inr et"
    and "py_float (getenv env ''MAX_COST_PER_REQUEST'' ''1.00'') = Inr c"
  shows "\<exists>p. import_module env = Inr p
    \<and> Config_load (Config_cls p) =
        \<lparr>openai = \<lparr>api_key = k, model = getenv env ''OPENAI_MODEL'' ''gpt-4-turbo-preview'',
                   temperature = t, max_tokens = n\<rparr>,
         agent = \<lparr>max_iterations = i, max_execution_time = et,
                  verbose = (lower (getenv env ''AGENT_VERBOSE'' ''true'') = ''true'')\<rparr>,
         memory = \<lparr>memory_type = getenv env ''MEMORY_TYPE'' ''chromadb'',
                   collection_name = getenv env ''MEMORY_COLLECTION_NAME'' ''agent_memory'',
                   persist_directory =
                     Path (getenv env ''MEMORY_PERSIST_DIRECTORY'' ''./data/memory'')\<rparr>,
         cost = \<lparr>max_cost_per_request = c,
                 enable_cost_tracking =
                   (lower (getenv env ''ENABLE_COST_TRACKING'' ''true'') = ''true'')\<rparr>\<rparr>
    \<and> config p = Config_load (Config_cls p)"
  using import_module_succeeds [OF assms] by (simp add: Config_load_def)

theorem load_valid_snapshot_witness:
  "env_custom ''OPENAI_API_KEY'' = Some ''sk-test''
   \<and> py_float (getenv env_custom ''OPENAI_TEMPERATURE'' ''0.0'') = Inr (Finite (7 / 10))
   \<and> py_int (getenv env_custom ''AGENT_MAX_ITERATIONS'' ''10'') = Inr 25
   \<and> (\<exists>p. import_module env_custom = Inr p
        \<and> Config_load (Config_cls p) =
            \<lparr>openai = \<lparr>api_key = ''sk-test'', model = ''gpt-4-turbo-preview'',
                       temperature = Finite (7 / 10), max_tokens = 4096\<rparr>,
             agent = \<lparr>max_iterations = 25, max_execution_time = 300, verbose = False\<rparr>,
             memory = \<lparr>memory_type = ''chromadb'', collection_name = ''agent_memory'',
                       persist_directory = Path ''./data/memory''\<rparr>,
             cost = \<lparr>max_cost_per_request = Finite 1, enable_cost_tracking = True\<rparr>\<rparr>
        \<and> config p = Config_load (Config_cls p))"
proof -
  have k: "env_custom ''OPENAI_API_KEY'' = Some ''sk-test''"
    by (simp add: env_custom_def)
  have t: "py_float (getenv env_custom ''OPENAI_TEMPERATURE'' ''0.0'') = Inr (Finite (7 / 10))"
    by (simp add: env_custom_def getenv_def py_float_07)
  have n: "py_int (getenv env_custom ''MAX_TOKENS'' ''4096'') = Inr 4096"
    by (simp add: env_custom_def getenv_def py_int_4096)
  have i: "py_int (getenv env_custom ''AGENT_MAX_ITERATIONS'' ''10'') = Inr 25"
    by (simp add: env_custom_def getenv_def py_int_25)
  have et: "py_int (getenv env_custom ''AGENT_MAX_EXECUTION_TIME'' ''300'') = Inr 300"
    by (simp add: env_custom_def getenv_def py_int_300)
  have c: "py_float (getenv env_custom ''MAX_COST_PER_REQUEST'' ''1.00'') = Inr (Finite 1)"
    by (simp add: env_custom_def getenv_def py_float_1)
  have g: "getenv env_custom ''OPENAI_MODEL'' ''gpt-4-turbo-preview'' = ''gpt-4-turbo-preview''"
    "getenv env_custom ''AGENT_VERBOSE'' ''true'' = ''False''"
    "getenv env_custom ''MEMORY_TYPE'' ''chromadb'' = ''chromadb''"
    "getenv env_custom ''MEMORY_COLLECTION_NAME'' ''agent_memory'' = ''agent_memory''"
    "getenv env_custom ''MEMORY_PERSIST_DIRECTORY'' ''./data/memory'' = ''./data/memory''"
    "getenv env_custom ''ENABLE_COST_TRACKING'' ''true'' = ''true''"
    by (simp_all add: env_custom_def getenv_def)
  show ?thesis
    using load_valid_snapshot [OF k _ _ t n i _ _ et c] k t i
    by (simp add: g lower_False lower_true)
qed

subsection \<open>C2: an invalid credential key\<close>

text \<open>
  With the key unset and \<^verbatim>\<open>OPENAI_TEMPERATURE=abc\<close> the construction fails in \<^verbatim>\<open>float\<close>,
  before the constructor of the record is called: the error is not the one of the key.
\<close>

theorem credential_error_preempted:
  "env_no_key_bad_temperature ''OPENAI_API_KEY'' = None
   \<and> import_module env_no_key_bad_temperature = Inl (FloatValueError ''abc'')
   \<and> import_module env_no_key_bad_temperature
       \<noteq> Inl (ValidationError ''api_key'' ''Valid OpenAI API key required'')"
proof -
  have "openai_default env_no_key_bad_temperature = Inl (FloatValueError ''abc'')"
    by (simp add: openai_default_def env_no_key_bad_temperature_def getenv_def py_float_abc)
  then have "import_module env_no_key_bad_temperature = Inl (FloatValueError ''abc'')"
    by (rule import_module_openai_error)
  then show ?thesis by (simp add: env_no_key_bad_temperature_def)
qed

text \<open>
  C2, amended. If the credential key is unset, empty or the placeholder, the construction
  fails and there is no aggregate. The error is the first of: the error of \<^verbatim>\<open>float\<close> on
  \<^verbatim>\<open>OPENAI_TEMPERATURE\<close>, the error of \<^verbatim>\<open>int\<close> on \<^verbatim>\<open>MAX_TOKENS\<close>, and the validation
  error \<^verbatim>\<open>Valid OpenAI API key required\<close>; so it is the latter whenever both variables
  coerce.
\<close>

theorem invalid_credential_fails:
  assumes "env ''OPENAI_API_KEY'' = None \<or> env ''OPENAI_API_KEY'' = Some []
    \<or> env ''OPENAI_API_KEY'' = Some ''your_openai_api_key_here''"
  shows "isl (import_module env)
    \<and> import_module env =
        (case py_float (getenv env ''OPENAI_TEMPERATURE'' ''0.0'') of
           Inl e \<Rightarrow> Inl e
         | Inr t \<Rightarrow>
             (case py_int (getenv env ''MAX_TOKENS'' ''4096'') of
                Inl e \<Rightarrow> Inl e
              | Inr n \<Rightarrow> Inl (ValidationError ''api_key'' ''Valid OpenAI API key required'')))"
proof -
  define k where "k = getenv env ''OPENAI_API_KEY'' ''your_openai_api_key_here''"
  have "k = [] \<or> k = ''your_openai_api_key_here''"
    using assms by (auto simp: k_def getenv_def)
  then have new: "new_OpenAIConfig k m t n
      = Inl (ValidationError ''api_key'' ''Valid OpenAI API key required'')" for m t n
    by (auto simp: new_OpenAIConfig_def validate_api_key_def)
  show ?thesis
  proof (cases "py_float (getenv env ''OPENAI_TEMPERATURE'' ''0.0'')")
    case (Inl e)
    then have "openai_default env = Inl e"
      by (simp add: openai_default_def)
    then have "import_module env = Inl e"
      by (rule import_module_openai_error)
    then show ?thesis by (simp add: Inl)
  next
    case t: (Inr t)
    show ?thesis
    proof (cases "py_int (getenv env ''MAX_TOKENS'' ''4096'')")
      case (Inl e)
      then have "openai_default env = Inl e"
        by (simp add: openai_default_def t)
      then have "import_module env = Inl e"
        by (rule import_module_openai_error)
      then show ?thesis by (simp add: Inl t)
    next
      case (Inr n)
      have "openai_default env
          = Inl (ValidationError ''api_key'' ''Valid OpenAI API key required'')"
        unfolding openai_default_def Let_def k_def [symmetric] by (simp add: t Inr new)
      then have "import_module env
          = Inl (ValidationError ''api_key'' ''Valid OpenAI API key required'')"
        by (rule import_module_openai_error)
      then show ?thesis by (simp add: Inr t)
    qed
  qed
qed

theorem invalid_credential_fails_witness:
  "Map.empty ''OPENAI_API_KEY'' = (None :: string option)
   \<and> isl (import_module Map.empty)
   \<and> import_module Map.empty = Inl (ValidationError ''api_key'' ''Valid OpenAI API key required'')"
  using invalid_credential_fails [of Map.empty]
  by (simp add: getenv_def py_float_0 py_int_4096)

subsection \<open>C3: the range of the iteration count\<close>

text \<open>
  C3. The construction of the agent record from a coerced iteration count \<open>i\<close> fails if
  and only if \<open>i\<close> is below 1 or above 50, with the error
  \<^verbatim>\<open>Max iterations must be between 1 and 50\<close>; for every \<open>i\<close> from 1 to 50, bounds
  included, it returns the record with that count. From an environment whose iteration
  count and execution time coerce, the agent record fails to be built exactly when the count
  is out of range, and a count out of range makes the whole construction fail.
\<close>

theorem new_AgentConfig_range:
  "isl (new_AgentConfig i t v) = (i < 1 \<or> 50 < i)
   \<and> new_AgentConfig i t v =
       (if 1 \<le> i \<and> i \<le> 50
        then Inr \<lparr>max_iterations = i, max_execution_time = t, verbose = v\<rparr>
        else Inl (ValidationError ''max_iterations'' ''Max iterations must be between 1 and 50''))
   \<and> (py_int (getenv env ''AGENT_MAX_ITERATIONS'' ''10'') = Inr j
        \<and> py_int (getenv env ''AGENT_MAX_EXECUTION_TIME'' ''300'') = Inr et
        \<longrightarrow> isl (agent_default env) = (j < 1 \<or> 50 < j))
   \<and> (py_int (getenv env ''AGENT_MAX_ITERATIONS'' ''10'') = Inr j \<and> (j < 1 \<or> 50 < j)
        \<longrightarrow> isl (import_module env))"
proof -
  have 1: "isl (new_AgentConfig i t v) = (i < 1 \<or> 50 < i)"
    by (simp add: new_AgentConfig_def validate_iterations_def)
  have 2: "new_AgentConfig i t v =
       (if 1 \<le> i \<and> i \<le> 50
        then Inr \<lparr>max_iterations = i, max_execution_time = t, verbose = v\<rparr>
        else Inl (ValidationError ''max_iterations'' ''Max iterations must be between 1 and 50''))"
    by (simp add: new_AgentConfig_def validate_iterations_def)
  have 3: "isl (agent_default env) = (j < 1 \<or> 50 < j)"
    if "py_int (getenv env ''AGENT_MAX_ITERATIONS'' ''10'') = Inr j"
      and "py_int (getenv env ''AGENT_MAX_EXECUTION_TIME'' ''300'') = Inr et"
    using that by (simp add: isl_agent_default)
  have 4: "isl (import_module env)"
    if "py_int (getenv env ''AGENT_MAX_ITERATIONS'' ''10'') = Inr j" and "j < 1 \<or> 50 < j"
  proof -
    have "isl (agent_default env)"
      using that by (simp add: isl_agent_default split: sum.splits)
    then show ?thesis by (simp add: isl_import_module)
  qed
  from 1 2 3 4 show ?thesis by blast
qed

theorem new_AgentConfig_range_witness:
  "py_int (getenv env_51_iterations ''AGENT_MAX_ITERATIONS'' ''10'') = Inr 51
   \<and> py_int (getenv env_51_iterations ''AGENT_MAX_EXECUTION_TIME'' ''300'') = Inr 300
   \<and> isl (agent_default env_51_iterations)
   \<and> isl (import_module env_51_iterations)
   \<and> new_AgentConfig 0 300 True
       = Inl (ValidationError ''max_iterations'' ''Max iterations must be between 1 and 50'')
   \<and> new_AgentConfig 1 300 True
       = Inr \<lparr>max_iterations = 1, max_execution_time = 300, verbose = True\<rparr>
   \<and> new_AgentConfig 50 300 True
       = Inr \<lparr>max_iterations = 50, max_execution_time = 300, verbose = True\<rparr>
   \<and> new_AgentConfig 51 300 True
       = Inl (ValidationError ''max_iterations'' ''Max iterations must be between 1 and 50'')"
proof -
  have a: "py_int (getenv env_51_iterations ''AGENT_MAX_ITERATIONS'' ''10'') = Inr 51"
    by (simp add: env_51_iterations_def getenv_def py_int_51)
  have b: "py_int (getenv env_51_iterations ''AGENT_MAX_EXECUTION_TIME'' ''300'') = Inr 300"
    by (simp add: env_51_iterations_def getenv_def py_int_300)
  show ?thesis
    using new_AgentConfig_range [of 0 300 True env_51_iterations 51 300]
      new_AgentConfig_range [of 1 300 True env_51_iterations 51 300]
      new_AgentConfig_range [of 50 300 True env_51_iterations 51 300]
      new_AgentConfig_range [of 51 300 True env_51_iterations 51 300] a b
    by simp
qed

subsection \<open>C4: numeric variables that do not parse\<close>

text \<open>
  The module never reads a variable named \<^verbatim>\<open>TEMPERATURE\<close>: its temperature variable is
  \<^verbatim>\<open>OPENAI_TEMPERATURE\<close>. With \<^verbatim>\<open>TEMPERATURE=abc\<close> and a valid key the construction
  succeeds, and the temperature is the default.
\<close>

theorem TEMPERATURE_is_not_read:
  "env_TEMPERATURE ''TEMPERATURE'' = Some ''abc''
   \<and> py_float ''abc'' = Inl (FloatValueError ''abc'')
   \<and> import_module env_TEMPERATURE =
    Inr \<lparr>environ = env_TEMPERATURE,
         Config_cls =
           \<lparr>openai_dflt = \<lparr>api_key = ''sk-test'', model = ''gpt-4-turbo-preview'',
                           temperature = Finite 0, max_tokens = 4096\<rparr>,
            agent_dflt = \<lparr>max_iterations = 10, max_execution_time = 300, verbose = True\<rparr>,
            memory_dflt = \<lparr>memory_type = ''chromadb'', collection_name = ''agent_memory'',
                           persist_directory = Path ''./data/memory''\<rparr>,
            cost_dflt = \<lparr>max_cost_per_request = Finite 1, enable_cost_tracking = True\<rparr>\<rparr>,
         config =
           \<lparr>openai = \<lparr>api_key = ''sk-test'', model = ''gpt-4-turbo-preview'',
                      temperature = Finite 0, max_tokens = 4096\<rparr>,
            agent = \<lparr>max_iterations = 10, max_execution_time = 300, verbose = True\<rparr>,
            memory = \<lparr>memory_type = ''chromadb'', collection_name = ''agent_memory'',
                      persist_directory = Path ''./data/memory''\<rparr>,
            cost = \<lparr>max_cost_per_request = Finite 1, enable_cost_tracking = True\<rparr>\<rparr>\<rparr>"
proof -
  have k: "env_TEMPERATURE ''OPENAI_API_KEY'' = Some ''sk-test''"
    by (simp add: env_TEMPERATURE_def)
  have g: "getenv env_TEMPERATURE ''OPENAI_TEMPERATURE'' ''0.0'' = ''0.0''"
    "getenv env_TEMPERATURE ''MAX_TOKENS'' ''4096'' = ''4096''"
    "getenv env_TEMPERATURE ''AGENT_MAX_ITERATIONS'' ''10'' = ''10''"
    "getenv env_TEMPERATURE ''AGENT_MAX_EXECUTION_TIME'' ''300'' = ''300''"
    "getenv env_TEMPERATURE ''MAX_COST_PER_REQUEST'' ''1.00'' = ''1.00''"
    "getenv env_TEMPERATURE ''OPENAI_MODEL'' ''gpt-4-turbo-preview'' = ''gpt-4-turbo-preview''"
    "getenv env_TEMPERATURE ''AGENT_VERBOSE'' ''true'' = ''true''"
    "getenv env_TEMPERATURE ''MEMORY_TYPE'' ''chromadb'' = ''chromadb''"
    "getenv env_TEMPERATURE ''MEMORY_COLLECTION_NAME'' ''agent_memory'' = ''agent_memory''"
    "getenv env_TEMPERATURE ''MEMORY_PERSIST_DIRECTORY'' ''./data/memory'' = ''./data/memory''"
    "getenv env_TEMPERATURE ''ENABLE_COST_TRACKING'' ''true'' = ''true''"
    by (simp_all add: env_TEMPERATURE_def getenv_def)
  have "env_TEMPERATURE ''TEMPERATURE'' = Some ''abc''"
    by (simp add: env_TEMPERATURE_def)
  then show ?thesis
    using import_module_succeeds [of env_TEMPERATURE "''sk-test''" "Finite 0" 4096 10 300 "Finite 1"] k
    by (simp add: g py_float_0 py_int_4096 py_int_10 py_int_300 py_float_1 lower_true
        py_float_abc)
qed

text \<open>
  C4, amended. If \<^verbatim>\<open>MAX_TOKENS\<close>, \<^verbatim>\<open>OPENAI_TEMPERATURE\<close>, \<^verbatim>\<open>AGENT_MAX_EXECUTION_TIME\<close> or
  \<^verbatim>\<open>MAX_COST_PER_REQUEST\<close> is set to a string that \<^verbatim>\<open>int\<close>, respectively \<^verbatim>\<open>float\<close>,
  does not parse, the construction raises an error and there is no aggregate: the default
  does not replace the value.
\<close>

theorem unparsable_numeric_fails:
  "(env ''MAX_TOKENS'' = Some s \<and> isl (py_int s) \<longrightarrow> isl (import_module env))
   \<and> (env ''OPENAI_TEMPERATURE'' = Some s \<and> isl (py_float s) \<longrightarrow> isl (import_module env))
   \<and> (env ''AGENT_MAX_EXECUTION_TIME'' = Some s \<and> isl (py_int s) \<longrightarrow> isl (import_module env))
   \<and> (env ''MAX_COST_PER_REQUEST'' = Some s \<and> isl (py_float s) \<longrightarrow> isl (import_module env))"
proof (cases "import_module env")
  case (Inl e)
  then show ?thesis by simp
next
  case (Inr p)
  note c = config_of_import [OF Inr]
  have "env ''MAX_TOKENS'' = Some s \<Longrightarrow> \<not> isl (py_int s)"
    using openai_default_Inr(6) [OF c(1)] by (simp add: getenv_def)
  moreover have "env ''OPENAI_TEMPERATURE'' = Some s \<Longrightarrow> \<not> isl (py_float s)"
    using openai_default_Inr(5) [OF c(1)] by (simp add: getenv_def)
  moreover have "env ''AGENT_MAX_EXECUTION_TIME'' = Some s \<Longrightarrow> \<not> isl (py_int s)"
    using agent_default_Inr(4) [OF c(2)] by (simp add: getenv_def)
  moreover have "env ''MAX_COST_PER_REQUEST'' = Some s \<Longrightarrow> \<not> isl (py_float s)"
    using cost_default_Inr(1) [OF c(4)] by (simp add: getenv_def)
  ultimately show ?thesis by blast
qed

theorem unparsable_numeric_fails_witness:
  "env_all_bad ''MAX_TOKENS'' = Some ''abc'' \<and> env_all_bad ''OPENAI_TEMPERATURE'' = Some ''abc''
   \<and> env_all_bad ''AGENT_MAX_EXECUTION_TIME'' = Some ''abc''
   \<and> env_all_bad ''MAX_COST_PER_REQUEST'' = Some ''abc''
   \<and> isl (py_int ''abc'') \<and> isl (py_float ''abc'')
   \<and> isl (import_module env_all_bad)"
  using unparsable_numeric_fails [of env_all_bad "''abc''"]
  by (simp add: env_all_bad_def py_int_abc py_float_abc)

subsection \<open>C5: the defaults\<close>

text \<open>
  C5. In the aggregate loaded from an environment, the field of every optional variable
  that is unset has its literal default: model \<^verbatim>\<open>gpt-4-turbo-preview\<close>, temperature 0.0,
  max tokens 4096, max iterations 10, max execution time 300, verbose true, memory type
  \<^verbatim>\<open>chromadb\<close>, collection \<^verbatim>\<open>agent_memory\<close>, persist directory \<^verbatim>\<open>./data/memory\<close>, max
  cost per request 1.00, cost tracking true.
\<close>

theorem unset_variables_take_defaults:
  assumes "import_module env = Inr p"
  shows "(env ''OPENAI_MODEL'' = None \<longrightarrow> model (openai (config p)) = ''gpt-4-turbo-preview'')
    \<and> (env ''OPENAI_TEMPERATURE'' = None \<longrightarrow> temperature (openai (config p)) = Finite 0)
    \<and> (env ''MAX_TOKENS'' = None \<longrightarrow> max_tokens (openai (config p)) = 4096)
    \<and> (env ''AGENT_MAX_ITERATIONS'' = None \<longrightarrow> max_iterations (agent (config p)) = 10)
    \<and> (env ''AGENT_MAX_EXECUTION_TIME'' = None \<longrightarrow> max_execution_time (agent (config p)) = 300)
    \<and> (env ''AGENT_VERBOSE'' = None \<longrightarrow> verbose (agent (config p)) = True)
    \<and> (env ''MEMORY_TYPE'' = None \<longrightarrow> memory_type (memory (config p)) = ''chromadb'')
    \<and> (env ''MEMORY_COLLECTION_NAME'' = None
         \<longrightarrow> collection_name (memory (config p)) = ''agent_memory'')
    \<and> (env ''MEMORY_PERSIST_DIRECTORY'' = None
         \<longrightarrow> persist_directory (memory (config p)) = Path ''./data/memory'')
    \<and> (env ''MAX_COST_PER_REQUEST'' = None
         \<longrightarrow> max_cost_per_request (cost (config p)) = Finite 1)
    \<and> (env ''ENABLE_COST_TRACKING'' = None
         \<longrightarrow> enable_cost_tracking (cost (config p)) = True)
    \<and> Config_load (Config_cls p) = config p"
proof -
  note c = config_of_import [OF assms]
  note o = openai_default_Inr [OF c(1)]
  note a = agent_default_Inr [OF c(2)]
  note m = memory_default_Inr [OF c(3)]
  note k = cost_default_Inr [OF c(4)]
  have 1: "env ''OPENAI_MODEL'' = None \<longrightarrow> model (openai (config p)) = ''gpt-4-turbo-preview''"
    using o(4) by (simp add: getenv_unset)
  have 2: "env ''OPENAI_TEMPERATURE'' = None \<longrightarrow> temperature (openai (config p)) = Finite 0"
    using o(5) by (auto simp: getenv_unset py_float_0)
  have 3: "env ''MAX_TOKENS'' = None \<longrightarrow> max_tokens (openai (config p)) = 4096"
    using o(6) by (auto simp: getenv_unset py_int_4096)
  have 4: "env ''AGENT_MAX_ITERATIONS'' = None \<longrightarrow> max_iterations (agent (config p)) = 10"
    using a(1) by (auto simp: getenv_unset py_int_10)
  have 5: "env ''AGENT_MAX_EXECUTION_TIME'' = None
      \<longrightarrow> max_execution_time (agent (config p)) = 300"
    using a(4) by (auto simp: getenv_unset py_int_300)
  have 6: "env ''AGENT_VERBOSE'' = None \<longrightarrow> verbose (agent (config p)) = True"
    using a(5) by (simp add: getenv_unset lower_true)
  have 7: "env ''MEMORY_TYPE'' = None \<longrightarrow> memory_type (memory (config p)) = ''chromadb''"
    using m(1) by (simp add: getenv_unset)
  have 8: "env ''MEMORY_COLLECTION_NAME'' = None
      \<longrightarrow> collection_name (memory (config p)) = ''agent_memory''"
    using m(2) by (simp add: getenv_unset)
  have 9: "env ''MEMORY_PERSIST_DIRECTORY'' = None
      \<longrightarrow> persist_directory (memory (config p)) = Path ''./data/memory''"
    using m(3) by (simp add: getenv_unset)
  have 10: "env ''MAX_COST_PER_REQUEST'' = None
      \<longrightarrow> max_cost_per_request (cost (config p)) = Finite 1"
    using k(1) by (auto simp: getenv_unset py_float_1)
  have 11: "env ''ENABLE_COST_TRACKING'' = None
      \<longrightarrow> enable_cost_tracking (cost (config p)) = True"
    using k(2) by (simp add: getenv_unset lower_true)
  have 12: "Config_load (Config_cls p) = config p"
    using import_module_Inr(2) [OF assms] by simp
  from 1 2 3 4 5 6 7 8 9 10 11 12 show ?thesis by blast
qed

theorem unset_variables_take_defaults_witness:
  "\<exists>p. import_module env_key_only = Inr p
     \<and> env_key_only ''OPENAI_MODEL'' = None \<and> env_key_only ''OPENAI_TEMPERATURE'' = None
     \<and> env_key_only ''MAX_TOKENS'' = None \<and> env_key_only ''AGENT_MAX_ITERATIONS'' = None
     \<and> env_key_only ''AGENT_MAX_EXECUTION_TIME'' = None \<and> env_key_only ''AGENT_VERBOSE'' = None
     \<and> env_key_only ''MEMORY_TYPE'' = None \<and> env_key_only ''MEMORY_COLLECTION_NAME'' = None
     \<and> env_key_only ''MEMORY_PERSIST_DIRECTORY'' = None
     \<and> env_key_only ''MAX_COST_PER_REQUEST'' = None
     \<and> env_key_only ''ENABLE_COST_TRACKING'' = None
     \<and> model (openai (config p)) = ''gpt-4-turbo-preview''
     \<and> temperature (openai (config p)) = Finite 0
     \<and> max_tokens (openai (config p)) = 4096
     \<and> max_iterations (agent (config p)) = 10
     \<and> max_execution_time (agent (config p)) = 300
     \<and> verbose (agent (config p)) = True
     \<and> memory_type (memory (config p)) = ''chromadb''
     \<and> collection_name (memory (config p)) = ''agent_memory''
     \<and> persist_directory (memory (config p)) = Path ''./data/memory''
     \<and> max_cost_per_request (cost (config p)) = Finite 1
     \<and> enable_cost_tracking (cost (config p)) = True"
proof -
  obtain p where p: "import_module env_key_only = Inr p"
    using import_key_only by simp
  have u: "env_key_only ''OPENAI_MODEL'' = None" "env_key_only ''OPENAI_TEMPERATURE'' = None"
    "env_key_only ''MAX_TOKENS'' = None" "env_key_only ''AGENT_MAX_ITERATIONS'' = None"
    "env_key_only ''AGENT_MAX_EXECUTION_TIME'' = None" "env_key_only ''AGENT_VERBOSE'' = None"
    "env_key_only ''MEMORY_TYPE'' = None" "env_key_only ''MEMORY_COLLECTION_NAME'' = None"
    "env_key_only ''MEMORY_PERSIST_DIRECTORY'' = None"
    "env_key_only ''MAX_COST_PER_REQUEST'' = None"
    "env_key_only ''ENABLE_COST_TRACKING'' = None"
    by (simp_all add: env_key_only_def)
  show ?thesis
    using unset_variables_take_defaults [OF p] p u
    by (intro exI [of _ p]) simp
qed

subsection \<open>C6: the boolean variables\<close>

text \<open>
  C6. The coercion of \<^verbatim>\<open>AGENT_VERBOSE\<close> and \<^verbatim>\<open>ENABLE_COST_TRACKING\<close> compares the
  lower-cased string with \<^verbatim>\<open>true\<close>: the field is true exactly for the case variants of
  \<^verbatim>\<open>true\<close> and false for every other string, and no string for either variable changes
  whether the construction fails.
\<close>

theorem bool_coercion:
  "(lower s = ''true'') = case_variant_of_true s
   \<and> (import_module env = Inr p \<and> env ''AGENT_VERBOSE'' = Some sv
        \<longrightarrow> verbose (agent (config p)) = case_variant_of_true sv)
   \<and> (import_module env = Inr p \<and> env ''ENABLE_COST_TRACKING'' = Some sc
        \<longrightarrow> enable_cost_tracking (cost (config p)) = case_variant_of_true sc)
   \<and> isl (import_module (env(''AGENT_VERBOSE'' \<mapsto> s))) = isl (import_module env)
   \<and> isl (import_module (env(''ENABLE_COST_TRACKING'' \<mapsto> s))) = isl (import_module env)"
proof -
  have 1: "(lower s = ''true'') = case_variant_of_true s"
    by (rule lower_eq_true)
  have 2: "verbose (agent (config p)) = case_variant_of_true sv"
    if "import_module env = Inr p" and "env ''AGENT_VERBOSE'' = Some sv"
    using agent_default_Inr(5) [OF config_of_import(2) [OF that(1)]] that(2)
    by (simp add: getenv_set lower_eq_true)
  have 3: "enable_cost_tracking (cost (config p)) = case_variant_of_true sc"
    if "import_module env = Inr p" and "env ''ENABLE_COST_TRACKING'' = Some sc"
    using cost_default_Inr(2) [OF config_of_import(4) [OF that(1)]] that(2)
    by (simp add: getenv_set lower_eq_true)
  from 1 2 3 isl_import_verbose [of env s] isl_import_tracking [of env s]
  show ?thesis by blast
qed

theorem bool_coercion_witness:
  "\<exists>p. import_module env_flags = Inr p
     \<and> env_flags ''AGENT_VERBOSE'' = Some ''TrUe''
     \<and> env_flags ''ENABLE_COST_TRACKING'' = Some ''FALSE''
     \<and> verbose (agent (config p)) = True
     \<and> enable_cost_tracking (cost (config p)) = False
     \<and> lower ''yes'' \<noteq> ''true''"
proof -
  have k: "env_flags ''OPENAI_API_KEY'' = Some ''sk-test''"
    by (simp add: env_flags_def)
  have g: "getenv env_flags ''OPENAI_TEMPERATURE'' ''0.0'' = ''0.0''"
    "getenv env_flags ''MAX_TOKENS'' ''4096'' = ''4096''"
    "getenv env_flags ''AGENT_MAX_ITERATIONS'' ''10'' = ''10''"
    "getenv env_flags ''AGENT_MAX_EXECUTION_TIME'' ''300'' = ''300''"
    "getenv env_flags ''MAX_COST_PER_REQUEST'' ''1.00'' = ''1.00''"
    by (simp_all add: env_flags_def getenv_def)
  have "\<exists>p. import_module env_flags = Inr p"
    using import_module_succeeds
      [of env_flags "''sk-test''" "Finite 0" 4096 10 300 "Finite 1"] k
    by (simp add: g py_float_0 py_int_4096 py_int_10 py_int_300 py_float_1)
  then obtain p where p: "import_module env_flags = Inr p" ..
  have v: "env_flags ''AGENT_VERBOSE'' = Some ''TrUe''"
    and c: "env_flags ''ENABLE_COST_TRACKING'' = Some ''FALSE''"
    by (simp_all add: env_flags_def)
  show ?thesis
    using bool_coercion [of "''yes''" env_flags p "''TrUe''" "''FALSE''"] p v c
    by (intro exI [of _ p]) (simp add: case_variant_of_true_def)
qed

subsection \<open>C7: loading twice\<close>

text \<open>
  C7. In a process that imported the module under a snapshot, two successive calls of
  \<^verbatim>\<open>Config.load()\<close> leave the process, and so the snapshot, as it is and return two
  aggregates whose fields are pairwise equal.
\<close>

theorem load_twice:
  assumes "import_module env = Inr p"
  shows "\<exists>a b. run [Load, Load] p = (p, [a, b])
    \<and> openai a = openai b \<and> agent a = agent b \<and> memory a = memory b \<and> cost a = cost b
    \<and> a = b \<and> environ p = env"
  using import_module_Inr(1) [OF assms] by simp

theorem load_twice_witness:
  "\<exists>p a b. import_module env_key_only = Inr p \<and> run [Load, Load] p = (p, [a, b])
     \<and> openai a = openai b \<and> agent a = agent b \<and> memory a = memory b \<and> cost a = cost b
     \<and> a = b \<and> environ p = env_key_only"
proof -
  obtain p where p: "import_module env_key_only = Inr p"
    using import_key_only by simp
  show ?thesis
    using load_twice [OF p] p by blast
qed

subsection \<open>C8: the merge of the local environment file\<close>

text \<open>
  C8. The merge is additive: a variable that is set before the merge keeps its value, and
  a variable whose value differs after the merge was unset before and has the value the
  file gives it.
\<close>

theorem load_dotenv_additive:
  "(env k = Some v \<longrightarrow> load_dotenv file env k = Some v)
   \<and> (load_dotenv file env k' \<noteq> env k'
        \<longrightarrow> env k' = None \<and> (\<exists>vars. file = Some vars \<and> load_dotenv file env k' = vars k'))"
  by (auto simp: load_dotenv_def split: option.splits)

theorem load_dotenv_additive_witness:
  "env_key_only ''OPENAI_API_KEY'' = Some ''sk-test''
   \<and> dotenv_example ''OPENAI_API_KEY'' = Some ''sk-file''
   \<and> load_dotenv (Some dotenv_example) env_key_only ''OPENAI_API_KEY'' = Some ''sk-test''
   \<and> env_key_only ''OPENAI_MODEL'' = None
   \<and> load_dotenv (Some dotenv_example) env_key_only ''OPENAI_MODEL'' = Some ''gpt-4''"
  using load_dotenv_additive
    [of env_key_only "''OPENAI_API_KEY''" "''sk-test''" "Some dotenv_example" "''OPENAI_MODEL''"]
  by (simp add: env_key_only_def dotenv_example_def load_dotenv_def)

subsection \<open>C9: no mutation after construction\<close>

text \<open>
  C9. Whatever the host does afterwards with the environment and however often it calls
  the loader, the global aggregate, each of its four records, and the defaults held by the
  class stay what they were after the construction.
\<close>

theorem config_never_mutated:
  "config (fst (run evs p)) = config p
   \<and> openai (config (fst (run evs p))) = openai (config p)
   \<and> agent (config (fst (run evs p))) = agent (config p)
   \<and> memory (config (fst (run evs p))) = memory (config p)
   \<and> cost (config (fst (run evs p))) = cost (config p)
   \<and> Config_cls (fst (run evs p)) = Config_cls p"
  using run_keeps_config [of evs p] by simp

subsection \<open>C10: the environment is read once\<close>

text \<open>
  C10. The defaults of the class are those computed from the environment of the import.
  After any changes of the environment, every call of \<^verbatim>\<open>Config.load()\<close> returns an
  aggregate equal to the global \<^verbatim>\<open>config\<close> of the import; so do two calls under
  different environments.
\<close>

theorem load_ignores_later_environment:
  assumes "import_module env0 = Inr p"
  shows "define_Config env0 = Inr (Config_cls (fst (run evs p)))
    \<and> snd (run evs p) = replicate (length (filter (\<lambda>ev. ev = Load) evs)) (config p)
    \<and> Config_load (Config_cls (fst (run evs p))) = config p"
  using import_module_Inr [OF assms] run_keeps_config [of evs p] run_returns [of evs p]
  by simp

theorem load_ignores_later_environment_witness:
  "\<exists>p. import_module env_key_only = Inr p
     \<and> snd (run [Setenv ''AGENT_MAX_ITERATIONS'' ''20'', Load,
                 Unsetenv ''OPENAI_API_KEY'', Load] p) = [config p, config p]
     \<and> environ (fst (run [Setenv ''AGENT_MAX_ITERATIONS'' ''20'', Load,
                 Unsetenv ''OPENAI_API_KEY'', Load] p)) ''AGENT_MAX_ITERATIONS'' = Some ''20''
     \<and> environ (fst (run [Setenv ''AGENT_MAX_ITERATIONS'' ''20'', Load,
                 Unsetenv ''OPENAI_API_KEY'', Load] p)) ''OPENAI_API_KEY'' = None
     \<and> max_iterations (agent (config p)) = 10
     \<and> api_key (openai (config p)) = ''sk-test''"
proof -
  obtain p where p: "import_module env_key_only = Inr p"
    using import_key_only by simp
  have c: "max_iterations (agent (config p)) = 10" "api_key (openai (config p)) = ''sk-test''"
    using p by (auto simp: import_key_only)
  show ?thesis
    using load_ignores_later_environment [OF p,
        of "[Setenv ''AGENT_MAX_ITERATIONS'' ''20'', Load, Unsetenv ''OPENAI_API_KEY'', Load]"]
      p c
    by (intro exI [of _ p]) simp
qed

end
